theory Spec2Isabelle
  imports Main
begin

section \<open>Data model\<close>

text \<open>
  The quiz application keeps its whole state in the \<open>useState\<close> cells of the \<open>App\<close>
  component. The embedding follows the declared TypeScript types: a \<open>number\<close> that only
  ever counts is an \<open>int\<close>, \<open>string | null\<close> is \<open>string option\<close> with \<open>None\<close> for
  \<open>null\<close>, and reading an array outside its range yields \<open>undefined\<close>, which is the
  outer \<open>None\<close> of \<open>js_index\<close>. Strings are sequences of code units below 256.
\<close>

record QuizQuestion =
  questionText :: string
  answerOptions :: "string list"
  correctAnswer :: string
  explanationText :: string

datatype QuizStatus = NOT_STARTED | LOADING | IN_PROGRESS | FINISHED

text \<open>
  \<open>String.prototype.trim\<close> removes white space at both ends. Of the code units below
  256 these are tab, line feed, vertical tab, form feed, carriage return, space and the
  no-break space.
\<close>

definition isWhiteSpace :: "char \<Rightarrow> bool" where
  "isWhiteSpace c = ((of_char c :: nat) \<in> {9, 10, 11, 12, 13, 32, 160})"

definition trim :: "string \<Rightarrow> string" where
  "trim s = rev (dropWhile isWhiteSpace (rev (dropWhile isWhiteSpace s)))"

text \<open>What a \<open>catch\<close> clause can receive: an \<open>Error\<close> with its message, or any other value.\<close>

datatype thrown = JsError string | NonError

section \<open>The question source\<close>

text \<open>
  \<open>generateQuizQuestions\<close> returns whatever \<open>JSON.parse\<close> found under \<open>questions\<close>; its
  declared result type \<open>QuizQuestion[]\<close> is not checked at run time, so the result is
  kept here as a list of JSON values. The environment variable, the call to the
  generation service and \<open>JSON.parse\<close> are parameters: \<open>API_KEY\<close> is \<open>None\<close> when the
  variable is not set; \<open>generateContent\<close> maps the topic (the prompt and the
  configuration are fixed but for the topic) to a thrown value or to the \<open>text\<close> of the
  response, \<open>None\<close> for \<open>undefined\<close>; \<open>JSON_parse\<close> yields a thrown \<open>SyntaxError\<close> or the
  parsed value, an object listing each of its keys once. The messages of the
  TypeErrors are those of V8. The value of a JSON number is never looked at beyond
  being zero or not, and is kept as an integer.
\<close>

datatype json =
  JNull | JBool bool | JNumber int | JString string | JArray "json list"
  | JObject "(string \<times> json) list"

fun startsWith :: "string \<Rightarrow> string \<Rightarrow> bool" where
  "startsWith _ [] = True"
| "startsWith [] (_ # _) = False"
| "startsWith (x # xs) (y # ys) = (x = y \<and> startsWith xs ys)"

fun String_includes :: "string \<Rightarrow> string \<Rightarrow> bool" where
  "String_includes [] t = (t = [])"
| "String_includes (x # xs) t = (startsWith (x # xs) t \<or> String_includes xs t)"

definition questions_property :: "json \<Rightarrow> thrown + json option" where
  "questions_property quizData =
     (case quizData of
        JNull \<Rightarrow> Inl (JsError ''Cannot read properties of null (reading 'questions')'')
      | JObject members \<Rightarrow> Inr (map_of members ''questions'')
      | _ \<Rightarrow> Inr None)"

fun truthy :: "json option \<Rightarrow> bool" where
  "truthy None = False"
| "truthy (Some JNull) = False"
| "truthy (Some (JBool b)) = b"
| "truthy (Some (JNumber n)) = (n \<noteq> 0)"
| "truthy (Some (JString s)) = (s \<noteq> [])"
| "truthy (Some (JArray _)) = True"
| "truthy (Some (JObject _)) = True"

fun Array_isArray :: "json option \<Rightarrow> bool" where
  "Array_isArray (Some (JArray _)) = True"
| "Array_isArray _ = False"

fun elements :: "json option \<Rightarrow> json list" where
  "elements (Some (JArray xs)) = xs"
| "elements _ = []"

definition generate_try ::
  "(string \<Rightarrow> thrown + string option) \<Rightarrow> (string \<Rightarrow> thrown + json) \<Rightarrow> string \<Rightarrow> thrown + json list"
where
  "generate_try generateContent JSON_parse topic =
     (case generateContent topic of
        Inl e \<Rightarrow> Inl e
      | Inr None \<Rightarrow> Inl (JsError ''Cannot read properties of undefined (reading 'trim')'')
      | Inr (Some text) \<Rightarrow>
          (case JSON_parse (trim text) of
             Inl e \<Rightarrow> Inl e
           | Inr quizData \<Rightarrow>
               (case questions_property quizData of
                  Inl e \<Rightarrow> Inl e
                | Inr qs \<Rightarrow>
                    if truthy qs \<and> Array_isArray qs \<and> 0 < length (elements qs)
                    then Inr (elements qs)
                    else Inl (JsError ''Failed to generate valid quiz questions. The received format is incorrect.''))))"

definition generate_catch :: "thrown \<Rightarrow> thrown" where
  "generate_catch err =
     (if (case err of JsError message \<Rightarrow> String_includes message ''json'' | NonError \<Rightarrow> False)
      then JsError ''There was an issue with the AI's response format. Please try again.''
      else JsError ''Could not generate the quiz. Please check the topic or try again later.'')"

definition generateQuizQuestions ::
  "string option \<Rightarrow> (string \<Rightarrow> thrown + string option) \<Rightarrow> (string \<Rightarrow> thrown + json) \<Rightarrow>
   string \<Rightarrow> thrown + json list"
where
  "generateQuizQuestions API_KEY generateContent JSON_parse topic =
     (if API_KEY = None \<or> API_KEY = Some []
      then Inl (JsError ''API_KEY environment variable not set'')
      else case generate_try generateContent JSON_parse topic of
             Inr qs \<Rightarrow> Inr qs
           | Inl err \<Rightarrow> Inl (generate_catch err))"

section \<open>Formatting the elapsed time\<close>

text \<open>
  A JavaScript \<open>number\<close> is a double: 53 significant bits, results rounded to the
  nearest double, ties to the even one. \<open>seconds\<close> is an integer-valued number and is
  given by its value, an integer that is a double (hence below \<open>2^1024\<close>, so nothing
  here overflows). \<open>to_double c\<close> is the double nearest to the natural number \<open>c\<close>;
  \<open>floor_of_quotient a b\<close> and \<open>ceiling_of_quotient a b\<close> are the double nearest to
  \<open>a / b\<close>, rounded down and up to an integer; \<open>scale_down\<close> and \<open>scale_up\<close> find the
  binary exponent. \<open>%\<close> is exact and takes the sign of the dividend (\<open>js_rem\<close>).
  \<open>toString\<close> prints the fewest decimal digits that still round to the number,
  followed by zeros (\<open>shortest\<close>: the nearest such value with the most zeros), and
  switches to exponential notation above 21 digits.
\<close>

definition digit_char :: "nat \<Rightarrow> char" where
  "digit_char d = char_of (48 + d)"

fun decimal :: "nat \<Rightarrow> string" where
  "decimal n = (if n < 10 then [digit_char n] else decimal (n div 10) @ [digit_char (n mod 10)])"

declare decimal.simps [simp del]



definition round_half_even :: "nat \<Rightarrow> nat \<Rightarrow> nat" where
  "round_half_even a b =
     (let q = a div b; r = a mod b
      in if 2 * r < b then q else if b < 2 * r then q + 1 else if even q then q else q + 1)"

function scale_down :: "nat \<Rightarrow> nat \<Rightarrow> nat \<Rightarrow> nat" where
  "scale_down a d e = (if d = 0 \<or> a < d then e else scale_down a (2 * d) (e + 1))"
  by pat_completeness auto
termination
  by (relation "measure (\<lambda>(a, d, e). a + 1 - d)") auto

function scale_up :: "nat \<Rightarrow> nat \<Rightarrow> nat \<Rightarrow> nat" where
  "scale_up x t k = (if x = 0 \<or> t \<le> x then k else scale_up (2 * x) t (k + 1))"
  by pat_completeness auto
termination
  by (relation "measure (\<lambda>(x, t, k). t - x)") auto

declare scale_down.simps [simp del] scale_up.simps [simp del]

definition to_double :: "nat \<Rightarrow> nat" where
  "to_double c =
     (if c < 2 ^ 53 then c
      else let e = scale_down c (2 ^ 54) 1 in round_half_even c (2 ^ e) * 2 ^ e)"

definition floor_of_quotient :: "nat \<Rightarrow> nat \<Rightarrow> nat" where
  "floor_of_quotient a b =
     (if b * 2 ^ 53 \<le> a
      then let e = scale_down a (b * 2 ^ 54) 1 in round_half_even a (b * 2 ^ e) * 2 ^ e
      else let k = scale_up a (b * 2 ^ 52) 0 in round_half_even (a * 2 ^ k) b div 2 ^ k)"

definition ceiling_of_quotient :: "nat \<Rightarrow> nat \<Rightarrow> nat" where
  "ceiling_of_quotient a b =
     (if b * 2 ^ 53 \<le> a
      then let e = scale_down a (b * 2 ^ 54) 1 in round_half_even a (b * 2 ^ e) * 2 ^ e
      else let k = scale_up a (b * 2 ^ 52) 0 in (round_half_even (a * 2 ^ k) b + 2 ^ k - 1) div 2 ^ k)"

fun shortest :: "nat \<Rightarrow> nat \<Rightarrow> nat" where
  "shortest m 0 = m"
| "shortest m (Suc j) =
     (let p = 10 ^ Suc j; lo = (m div p) * p; hi = lo + p;
          vlo = (0 < lo \<and> to_double lo = m); vhi = (to_double hi = m)
      in if vlo \<and> vhi
         then (if m - lo < hi - m then lo
               else if hi - m < m - lo then hi
               else if even (lo div p) then lo else hi)
         else if vlo then lo
         else if vhi then hi
         else shortest m j)"

definition strip_zeros :: "string \<Rightarrow> string" where
  "strip_zeros ds = rev (dropWhile (\<lambda>c. c = CHR ''0'') (rev ds))"

definition exponential :: "nat \<Rightarrow> string" where
  "exponential c =
     (let ds = strip_zeros (decimal c); n = length (decimal c)
      in (if length ds = 1 then ds else hd ds # CHR ''.'' # tl ds) @ ''e+'' @ decimal (n - 1))"

definition toString_nat :: "nat \<Rightarrow> string" where
  "toString_nat m =
     (let c = shortest m (length (decimal m))
      in if length (decimal c) \<le> 21 then decimal c else exponential c)"

definition Number_toString :: "int \<Rightarrow> string" where
  "Number_toString i = (if i < 0 then CHR ''-'' # toString_nat (nat (- i)) else toString_nat (nat i))"

definition padStart :: "nat \<Rightarrow> char \<Rightarrow> string \<Rightarrow> string" where
  "padStart targetLength c s = replicate (targetLength - length s) c @ s"

definition js_rem :: "int \<Rightarrow> int \<Rightarrow> int" where
  "js_rem a b = (if a < 0 then - ((- a) mod \<bar>b\<bar>) else a mod \<bar>b\<bar>)"

definition Math_floor_quotient :: "int \<Rightarrow> nat \<Rightarrow> int" where
  "Math_floor_quotient a b =
     (if 0 \<le> a then int (floor_of_quotient (nat a) b)
      else - int (ceiling_of_quotient (nat (- a)) b))"

definition formatTime :: "int \<Rightarrow> string" where
  "formatTime seconds =
     (let mins = padStart 2 (CHR ''0'') (Number_toString (Math_floor_quotient seconds 60));
          secs = padStart 2 (CHR ''0'') (Number_toString (js_rem seconds 60))
      in mins @ '':'' @ secs)"

section \<open>The state of the application\<close>

record App =
  quizStatus :: QuizStatus
  topic :: string
  questions :: "QuizQuestion list"
  currentQuestionIndex :: int
  score :: int
  userAnswers :: "string option list"
  time :: int
  error :: "string option"

definition App_init :: App where
  "App_init =
     \<lparr>quizStatus = NOT_STARTED, topic = ''Class and Object in C++'', questions = [],
      currentQuestionIndex = 0, score = 0, userAnswers = [], time = 0, error = None\<rparr>"

text \<open>\<open>xs[i]\<close> in JavaScript: \<open>None\<close> stands for \<open>undefined\<close>.\<close>

definition js_index :: "'a list \<Rightarrow> int \<Rightarrow> 'a option" where
  "js_index xs i = (if 0 \<le> i \<and> i < int (length xs) then Some (xs ! nat i) else None)"

section \<open>The handlers of \<open>App\<close>\<close>

text \<open>
  \<open>fetchQuestions\<close> is asynchronous. Up to the \<open>await\<close> it either returns at once (blank
  topic) or enters LOADING and clears the error; \<open>fetchQuestions_resume\<close> is the rest of
  the \<open>try\<close> block and the \<open>catch\<close> clause, given how the awaited call settled.
\<close>

definition fetchQuestions_request :: "App \<Rightarrow> App option" where
  "fetchQuestions_request s =
     (if trim (topic s) = [] then None
      else Some (s\<lparr>quizStatus := LOADING, error := None\<rparr>))"

definition fetchQuestions_try :: "thrown + QuizQuestion list \<Rightarrow> App \<Rightarrow> thrown + App" where
  "fetchQuestions_try r s =
     (case r of
        Inl e \<Rightarrow> Inl e
      | Inr newQuestions \<Rightarrow>
          if int (length newQuestions) < 10
          then Inl (JsError ''The AI generated fewer than 10 questions. Please try again with a clearer topic.'')
          else Inr (s\<lparr>questions := newQuestions,
                      userAnswers := replicate (length newQuestions) None,
                      currentQuestionIndex := 0,
                      score := 0,
                      time := 0,
                      quizStatus := IN_PROGRESS\<rparr>))"

definition fetchQuestions_catch :: "thrown \<Rightarrow> App \<Rightarrow> App" where
  "fetchQuestions_catch err s =
     s\<lparr>error := Some (case err of JsError message \<Rightarrow> message
                               | NonError \<Rightarrow> ''An unknown error occurred''),
       quizStatus := NOT_STARTED\<rparr>"

definition fetchQuestions_resume :: "thrown + QuizQuestion list \<Rightarrow> App \<Rightarrow> App" where
  "fetchQuestions_resume r s =
     (case fetchQuestions_try r s of Inl err \<Rightarrow> fetchQuestions_catch err s | Inr s' \<Rightarrow> s')"

definition fetchQuestions :: "thrown + QuizQuestion list \<Rightarrow> App \<Rightarrow> App" where
  "fetchQuestions r s =
     (case fetchQuestions_request s of None \<Rightarrow> s | Some s1 \<Rightarrow> fetchQuestions_resume r s1)"

text \<open>
  The handlers are created anew at each render and read \<open>userAnswers\<close>,
  \<open>currentQuestionIndex\<close> and \<open>questions\<close> as they were at that render: the state
  \<open>rendered\<close>. \<open>handleAnswer\<close> tests the slot of that render and passes
  \<open>setUserAnswers\<close> an array computed from it, while \<open>setScore\<close> is given a function
  of the previous score and so acts on the state \<open>s\<close> the update meets. The two are
  the same state for the first call after a render. \<open>userAnswers[i] !== null\<close> also
  holds when the read is \<open>undefined\<close>, so the write that follows is always within the
  array. Reading \<open>.correctAnswer\<close> of a missing question raises a TypeError; the result
  is then the error alone, and what becomes of the update of \<open>userAnswers\<close> queued
  before it is left open. No click gets there: \<open>QuizArea\<close> is on screen only when the
  current question exists.
\<close>

definition handleAnswer :: "App \<Rightarrow> string \<Rightarrow> App \<Rightarrow> thrown + App" where
  "handleAnswer rendered selectedAnswer s =
     (if js_index (userAnswers rendered) (currentQuestionIndex rendered) \<noteq> Some None then Inr s
      else
        let newAnswers =
              (userAnswers rendered)[nat (currentQuestionIndex rendered) := Some selectedAnswer]
        in case js_index (questions rendered) (currentQuestionIndex rendered) of
             None \<Rightarrow> Inl (JsError ''Cannot read properties of undefined (reading 'correctAnswer')'')
           | Some q \<Rightarrow>
               if correctAnswer q = selectedAnswer
               then Inr (s\<lparr>userAnswers := newAnswers, score := score s + 1\<rparr>)
               else Inr (s\<lparr>userAnswers := newAnswers\<rparr>))"

definition handleNext :: "App \<Rightarrow> App" where
  "handleNext s =
     (if currentQuestionIndex s < int (length (questions s)) - 1
      then s\<lparr>currentQuestionIndex := currentQuestionIndex s + 1\<rparr> else s)"

definition handleBack :: "App \<Rightarrow> App" where
  "handleBack s =
     (if currentQuestionIndex s > 0
      then s\<lparr>currentQuestionIndex := currentQuestionIndex s - 1\<rparr> else s)"

definition handleFinish :: "App \<Rightarrow> App" where
  "handleFinish s = s\<lparr>quizStatus := FINISHED\<rparr>"

section \<open>What is on screen\<close>

text \<open>
  \<open>renderContent\<close> chooses the component by status. \<open>QuizArea\<close> destructures its
  \<open>question\<close> prop, so rendering fails when \<open>questions[currentQuestionIndex]\<close> is
  \<open>undefined\<close>. The props carry what decides which buttons exist and are enabled.
\<close>

record QuizAreaProps =
  question :: QuizQuestion
  questionNumber :: int
  totalQuestions :: int
  userAnswer :: "string option option"

datatype screen = Loader | QuizArea QuizAreaProps | ScoreDisplay | TopicSelector | RenderError

definition renderContent :: "App \<Rightarrow> screen" where
  "renderContent s =
     (case quizStatus s of
        LOADING \<Rightarrow> Loader
      | IN_PROGRESS \<Rightarrow>
          (case js_index (questions s) (currentQuestionIndex s) of
             None \<Rightarrow> RenderError
           | Some q \<Rightarrow>
               QuizArea \<lparr>question = q,
                         questionNumber = currentQuestionIndex s + 1,
                         totalQuestions = int (length (questions s)),
                         userAnswer = js_index (userAnswers s) (currentQuestionIndex s)\<rparr>)
      | FINISHED \<Rightarrow> ScoreDisplay
      | NOT_STARTED \<Rightarrow> TopicSelector)"

definition isAnswered :: "QuizAreaProps \<Rightarrow> bool" where
  "isAnswered p = (userAnswer p \<noteq> Some None)"

datatype button = OptionButton string | BackButton | NextButton | FinishButton

text \<open>A button of \<open>QuizArea\<close> can be clicked when it is rendered and not disabled.\<close>

fun clickable :: "QuizAreaProps \<Rightarrow> button \<Rightarrow> bool" where
  "clickable p (OptionButton option) =
     (option \<in> set (answerOptions (question p)) \<and> \<not> isAnswered p)"
| "clickable p BackButton = (questionNumber p \<noteq> 1)"
| "clickable p NextButton = (questionNumber p < totalQuestions p \<and> isAnswered p)"
| "clickable p FinishButton = (\<not> questionNumber p < totalQuestions p \<and> isAnswered p)"

section \<open>The operations offered to the user\<close>

text \<open>
  Each operation is a click (or an edit) that reaches its handler only through the
  component on screen; where the control is absent or disabled nothing happens.
  \<open>handleAnswerClick\<close> checks \<open>isAnswered\<close> once more before calling \<open>onAnswer\<close>.
  \<open>isLoading\<close> is passed to \<open>TopicSelector\<close> and \<open>ScoreDisplay\<close> as
  \<open>quizStatus === QuizStatus.LOADING\<close>. \<open>settle\<close> is the awaited generation call
  settling, which happens only while a request is under way, that is in LOADING.
\<close>

definition setTopic_op :: "string \<Rightarrow> App \<Rightarrow> App" where
  "setTopic_op t s =
     (if renderContent s = TopicSelector \<and> \<not> quizStatus s = LOADING then s\<lparr>topic := t\<rparr> else s)"

definition start_request :: "App \<Rightarrow> App" where
  "start_request s =
     (if renderContent s = TopicSelector \<and> \<not> (trim (topic s) = [] \<or> quizStatus s = LOADING)
      then (case fetchQuestions_request s of None \<Rightarrow> s | Some s1 \<Rightarrow> s1) else s)"

definition restart_request :: "App \<Rightarrow> App" where
  "restart_request s =
     (if renderContent s = ScoreDisplay \<and> \<not> quizStatus s = LOADING
      then (case fetchQuestions_request s of None \<Rightarrow> s | Some s1 \<Rightarrow> s1) else s)"

definition settle :: "thrown + QuizQuestion list \<Rightarrow> App \<Rightarrow> App" where
  "settle r s = (if quizStatus s = LOADING then fetchQuestions_resume r s else s)"

text \<open>
  Clicks on options that arrive before the next render all meet the buttons and the
  handlers of the same render: \<open>answer_clicks xs s\<close> delivers the clicks \<open>xs\<close> in order
  to the screen rendered from \<open>s\<close>. A single click is \<open>answer_op\<close>.
\<close>

definition answer_click :: "App \<Rightarrow> QuizAreaProps \<Rightarrow> string \<Rightarrow> App \<Rightarrow> App" where
  "answer_click rendered p x s =
     (if clickable p (OptionButton x) \<and> \<not> isAnswered p
      then (case handleAnswer rendered x s of Inr s' \<Rightarrow> s' | Inl _ \<Rightarrow> s)
      else s)"

definition answer_clicks :: "string list \<Rightarrow> App \<Rightarrow> App" where
  "answer_clicks xs s =
     (case renderContent s of
        QuizArea p \<Rightarrow> fold (answer_click s p) xs s
      | _ \<Rightarrow> s)"

definition answer_op :: "string \<Rightarrow> App \<Rightarrow> App" where
  "answer_op x s = answer_clicks [x] s"

definition next_op :: "App \<Rightarrow> App" where
  "next_op s =
     (case renderContent s of
        QuizArea p \<Rightarrow> if clickable p NextButton then handleNext s else s
      | _ \<Rightarrow> s)"

definition back_op :: "App \<Rightarrow> App" where
  "back_op s =
     (case renderContent s of
        QuizArea p \<Rightarrow> if clickable p BackButton then handleBack s else s
      | _ \<Rightarrow> s)"

definition finish_op :: "App \<Rightarrow> App" where
  "finish_op s =
     (case renderContent s of
        QuizArea p \<Rightarrow> if clickable p FinishButton then handleFinish s else s
      | _ \<Rightarrow> s)"

section \<open>The timer effect and runs of the application\<close>

text \<open>
  The effect with dependency \<open>[quizStatus]\<close> runs after the first render and after
  every render in which the status changed: its cleanup clears the interval of the
  previous run, and a new interval is set exactly when the status is IN_PROGRESS.
  \<open>ticking\<close> records whether an interval is set. The interval's callback is
  \<open>setTime(prevTime => prevTime + 1)\<close>.
\<close>

record Mounted =
  cells :: App
  ticking :: bool

definition Mounted_init :: Mounted where
  "Mounted_init = \<lparr>cells = App_init, ticking = (quizStatus App_init = IN_PROGRESS)\<rparr>"

definition useEffect_timer :: "QuizStatus \<Rightarrow> App \<Rightarrow> bool \<Rightarrow> bool" where
  "useEffect_timer prevStatus s t =
     (if quizStatus s = prevStatus then t else quizStatus s = IN_PROGRESS)"

definition tick :: "App \<Rightarrow> App" where
  "tick s = s\<lparr>time := time s + 1\<rparr>"

datatype event =
  SetTopic string | Start | Restart | Settled "thrown + QuizQuestion list"
  | Answer "string list" | Next | Back | Finish | Tick

text \<open>
  \<open>Answer xs\<close> is the clicks on options that arrive before the next render; every other
  event meets a freshly rendered screen. \<open>Tick\<close> is one second passing: the callback
  runs only if an interval is set.
\<close>

fun dispatch :: "event \<Rightarrow> bool \<Rightarrow> App \<Rightarrow> App" where
  "dispatch (SetTopic t) _ s = setTopic_op t s"
| "dispatch Start _ s = start_request s"
| "dispatch Restart _ s = restart_request s"
| "dispatch (Settled r) _ s = settle r s"
| "dispatch (Answer xs) _ s = answer_clicks xs s"
| "dispatch Next _ s = next_op s"
| "dispatch Back _ s = back_op s"
| "dispatch Finish _ s = finish_op s"
| "dispatch Tick t s = (if t then tick s else s)"

definition step :: "event \<Rightarrow> Mounted \<Rightarrow> Mounted" where
  "step e m =
     (let s' = dispatch e (ticking m) (cells m)
      in \<lparr>cells = s', ticking = useEffect_timer (quizStatus (cells m)) s' (ticking m)\<rparr>)"

fun run :: "event list \<Rightarrow> Mounted \<Rightarrow> Mounted" where
  "run [] m = m"
| "run (e # es) m = run es (step e m)"

section \<open>Sample data\<close>

definition sample_question :: QuizQuestion where
  "sample_question =
     \<lparr>questionText = ''Which keyword introduces a class in C++?'',
      answerOptions = [''class'', ''object'', ''def'', ''type''],
      correctAnswer = ''class'',
      explanationText = ''A class is introduced by the keyword class.''\<rparr>"

definition ten_questions :: "QuizQuestion list" where
  "ten_questions = replicate 10 sample_question"

text \<open>A quiz that has just been started: the first question is on screen, unanswered.\<close>

definition fresh_quiz :: App where
  "fresh_quiz =
     \<lparr>quizStatus = IN_PROGRESS, topic = ''Class and Object in C++'',
      questions = ten_questions, currentQuestionIndex = 0, score = 0,
      userAnswers = replicate 10 None, time = 0, error = None\<rparr>"

text \<open>A run in which the right option of each question is clicked twice before the next render.\<close>

definition double_click_events :: "event list" where
  "double_click_events =
     [Start, Settled (Inr ten_questions)] @
     concat (replicate 9 [Answer [''class'', ''class''], Next]) @
     [Answer [''class'', ''class'']]"


text \<open>
  A quiz in which every question has been answered and the user has gone back from
  the last question to the ninth.
\<close>

definition all_answered_events :: "event list" where
  "all_answered_events =
     [Start, Settled (Inr ten_questions)] @
     concat (replicate 9 [Answer [''class''], Next]) @
     [Answer [''def''], Back]"

definition all_answered_back :: App where
  "all_answered_back =
     \<lparr>quizStatus = IN_PROGRESS, topic = ''Class and Object in C++'',
      questions = ten_questions, currentQuestionIndex = 8, score = 9,
      userAnswers = replicate 9 (Some ''class'') @ [Some ''def''],
      time = 0, error = None\<rparr>"

text \<open>A quiz that was finished with seven correct answers after three seconds.\<close>

definition finished_events :: "event list" where
  "finished_events =
     [Start, Settled (Inr ten_questions), Tick] @
     concat (replicate 7 [Answer [''class''], Next]) @
     [Tick, Answer [''def''], Next, Answer [''def''], Next, Answer [''def''], Tick, Finish]"

definition finished_quiz :: App where
  "finished_quiz =
     \<lparr>quizStatus = FINISHED, topic = ''Class and Object in C++'',
      questions = ten_questions, currentQuestionIndex = 9, score = 7,
      userAnswers = replicate 7 (Some ''class'') @ replicate 3 (Some ''def''),
      time = 3, error = None\<rparr>"

text \<open>A response holding a single record with two options and no explanation.\<close>

definition one_question_text :: string where
  \<open>one_question_text =
     ''{"questions":[{"questionText":"Q","answerOptions":["a","b"],"correctAnswer":"c"}]}''\<close>

definition one_question :: json where
  "one_question =
     JObject [(''questionText'', JString ''Q''),
              (''answerOptions'', JArray [JString ''a'', JString ''b'']),
              (''correctAnswer'', JString ''c'')]"

definition sample_generateContent :: "string \<Rightarrow> thrown + string option" where
  "sample_generateContent t = Inr (Some one_question_text)"

definition sample_JSON_parse :: "string \<Rightarrow> thrown + json" where
  "sample_JSON_parse text =
     (if text = one_question_text then Inr (JObject [(''questions'', JArray [one_question])])
      else Inl (JsError ''Unexpected end of JSON input''))"

section \<open>Notions used to state the properties\<close>

text \<open>
  Decimal notation: \<open>is_decimal_of ds n\<close> says that \<open>ds\<close> is the decimal notation of \<open>n\<close>
  (digits only, value \<open>n\<close>, no leading zero), and \<open>zero_padded w ds\<close> pads \<open>ds\<close> with zeros
  on the left to at least \<open>w\<close> characters.
\<close>

definition is_digit :: "char \<Rightarrow> bool" where
  "is_digit c = (48 \<le> (of_char c :: nat) \<and> (of_char c :: nat) \<le> 57)"

definition dec_value :: "string \<Rightarrow> nat" where
  "dec_value ds = foldl (\<lambda>acc c. 10 * acc + (of_char c - 48)) 0 ds"

definition is_decimal_of :: "string \<Rightarrow> nat \<Rightarrow> bool" where
  "is_decimal_of ds n =
     (ds \<noteq> [] \<and> list_all is_digit ds \<and> dec_value ds = n \<and> (length ds = 1 \<or> hd ds \<noteq> CHR ''0''))"

definition zero_padded :: "nat \<Rightarrow> string \<Rightarrow> string" where
  "zero_padded w ds = replicate (w - length ds) (CHR ''0'') @ ds"

text \<open>
  The shape the specification asks of a generated question: the four fields, four
  options, and the correct answer among the options; and of a generated sequence: at
  least ten such questions.
\<close>

definition spec_QuizQuestion :: "json \<Rightarrow> bool" where
  "spec_QuizQuestion q =
     (case q of
        JObject members \<Rightarrow>
          (case (map_of members ''questionText'', map_of members ''answerOptions'',
                 map_of members ''correctAnswer'', map_of members ''explanationText'') of
             (Some (JString _), Some (JArray opts), Some (JString c), Some (JString _)) \<Rightarrow>
               length opts = 4 \<and> JString c \<in> set opts
           | _ \<Rightarrow> False)
      | _ \<Rightarrow> False)"

definition spec_valid_questions :: "json list \<Rightarrow> bool" where
  "spec_valid_questions qs = (10 \<le> length qs \<and> list_all spec_QuizQuestion qs)"

section \<open>Basic facts\<close>

lemma js_index_Some_range: "js_index xs i = Some v \<Longrightarrow> 0 \<le> i \<and> i < int (length xs)"
  by (simp add: js_index_def split: if_splits)

lemma js_index_update: "js_index xs i = Some v \<Longrightarrow> js_index (xs[nat i := w]) i = Some w"
  by (simp add: js_index_def split: if_splits)

lemma renderContent_QuizArea:
  "quizStatus s = IN_PROGRESS \<Longrightarrow> 0 \<le> currentQuestionIndex s \<Longrightarrow>
   currentQuestionIndex s < int (length (questions s)) \<Longrightarrow>
   renderContent s =
     QuizArea \<lparr>question = questions s ! nat (currentQuestionIndex s),
               questionNumber = currentQuestionIndex s + 1,
               totalQuestions = int (length (questions s)),
               userAnswer = js_index (userAnswers s) (currentQuestionIndex s)\<rparr>"
  by (simp add: renderContent_def js_index_def)

text \<open>The sample states are states the application reaches from its initial state.\<close>

lemma all_answered_back_reachable:
  "cells (run all_answered_events Mounted_init) = all_answered_back"
  by code_simp

lemma finished_quiz_reachable:
  "cells (run finished_events Mounted_init) = finished_quiz"
  by code_simp

section \<open>Navigation\<close>

lemma next_op_cases: "next_op s = s \<or> next_op s = handleNext s"
  by (simp add: next_op_def split: screen.splits)

lemma back_op_cases: "back_op s = s \<or> back_op s = handleBack s"
  by (simp add: back_op_def split: screen.splits)

lemma handleNext_frame: "handleNext s = s\<lparr>currentQuestionIndex := currentQuestionIndex (handleNext s)\<rparr>"
  by (simp add: handleNext_def)

lemma handleBack_frame: "handleBack s = s\<lparr>currentQuestionIndex := currentQuestionIndex (handleBack s)\<rparr>"
  by (simp add: handleBack_def)

text \<open>
  C9. Next and Back change nothing but \<open>currentQuestionIndex\<close>, in any state, for the
  handlers as well as for the clicks that may or may not reach them: the state after the
  call is the state before it with at most the index replaced.
\<close>

theorem next_back_frame:
  "handleNext s = s\<lparr>currentQuestionIndex := currentQuestionIndex (handleNext s)\<rparr> \<and>
   handleBack s = s\<lparr>currentQuestionIndex := currentQuestionIndex (handleBack s)\<rparr> \<and>
   next_op s = s\<lparr>currentQuestionIndex := currentQuestionIndex (next_op s)\<rparr> \<and>
   back_op s = s\<lparr>currentQuestionIndex := currentQuestionIndex (back_op s)\<rparr>"
proof -
  have n: "next_op s = s\<lparr>currentQuestionIndex := currentQuestionIndex (next_op s)\<rparr>"
    using next_op_cases [of s] handleNext_frame [of s] by auto
  have b: "back_op s = s\<lparr>currentQuestionIndex := currentQuestionIndex (back_op s)\<rparr>"
    using back_op_cases [of s] handleBack_frame [of s] by auto
  show ?thesis using n b handleNext_frame [of s] handleBack_frame [of s] by blast
qed






section \<open>Finishing\<close>

lemma finish_op_unset:
  "js_index (userAnswers s) (currentQuestionIndex s) = Some None \<Longrightarrow> finish_op s = s"
  by (simp add: finish_op_def renderContent_def isAnswered_def
      split: QuizStatus.splits option.splits)

lemma finish_op_not_last:
  "currentQuestionIndex s \<noteq> int (length (questions s)) - 1 \<Longrightarrow> finish_op s = s"
  by (auto simp add: finish_op_def renderContent_def isAnswered_def js_index_def
      split: QuizStatus.splits option.splits if_splits)

lemma finish_op_last_set:
  assumes "quizStatus s = IN_PROGRESS"
    and "currentQuestionIndex s = int (length (questions s)) - 1"
    and "js_index (userAnswers s) (currentQuestionIndex s) = Some (Some a)"
  shows "finish_op s = s\<lparr>quizStatus := FINISHED\<rparr>"
proof -
  have r: "0 \<le> currentQuestionIndex s" using js_index_Some_range [OF assms(3)] by simp
  have l: "currentQuestionIndex s < int (length (questions s))" using assms(2) by simp
  show ?thesis
    using assms
    by (simp add: finish_op_def renderContent_QuizArea [OF assms(1) r l] isAnswered_def
        handleFinish_def)
qed

text \<open>
  C2, as stated, fails. After all ten questions are answered and the user has gone back
  to the ninth, the status is IN_PROGRESS and the slot of the last question is set, but
  \<open>QuizArea\<close> renders the Next button in place of the Finish button: the quiz cannot be
  finished from there, and the state stays as it is.
\<close>

theorem finish_op_last_slot_counterexample:
  "quizStatus all_answered_back = IN_PROGRESS \<and>
   js_index (userAnswers all_answered_back) (int (length (questions all_answered_back)) - 1) =
     Some (Some ''def'') \<and>
   finish_op all_answered_back = all_answered_back \<and>
   quizStatus (finish_op all_answered_back) \<noteq> FINISHED"
  by code_simp

text \<open>
  C2, amended. In a state with status IN_PROGRESS, the Finish click changes nothing
  while the slot of the current question is \<open>null\<close>, and nothing unless the current
  question is the last one; when the current question is the last one and its slot
  holds an answer, the status becomes FINISHED and nothing else changes.
\<close>

theorem finish_op_correct:
  assumes "quizStatus s = IN_PROGRESS"
  shows "(js_index (userAnswers s) (currentQuestionIndex s) = Some None \<longrightarrow> finish_op s = s) \<and>
         (currentQuestionIndex s \<noteq> int (length (questions s)) - 1 \<longrightarrow> finish_op s = s) \<and>
         (currentQuestionIndex s = int (length (questions s)) - 1 \<and>
          js_index (userAnswers s) (currentQuestionIndex s) = Some (Some a) \<longrightarrow>
            finish_op s = s\<lparr>quizStatus := FINISHED\<rparr>)"
  using finish_op_unset [of s] finish_op_not_last [of s] finish_op_last_set [OF assms, of a]
  by blast

theorem finish_op_correct_witness:
  "quizStatus all_answered_back = IN_PROGRESS \<and>
   currentQuestionIndex all_answered_back = 8 \<and>
   finish_op all_answered_back = all_answered_back \<and>
   currentQuestionIndex (handleNext all_answered_back) =
     int (length (questions (handleNext all_answered_back))) - 1 \<and>
   js_index (userAnswers (handleNext all_answered_back))
     (currentQuestionIndex (handleNext all_answered_back)) = Some (Some ''def'') \<and>
   finish_op (handleNext all_answered_back) = (handleNext all_answered_back)\<lparr>quizStatus := FINISHED\<rparr>"
proof -
  have a: "quizStatus all_answered_back = IN_PROGRESS" by code_simp
  have b: "currentQuestionIndex all_answered_back = 8" by code_simp
  have c: "currentQuestionIndex all_answered_back \<noteq> int (length (questions all_answered_back)) - 1"
    by code_simp
  have d: "quizStatus (handleNext all_answered_back) = IN_PROGRESS" by code_simp
  have e: "currentQuestionIndex (handleNext all_answered_back) =
     int (length (questions (handleNext all_answered_back))) - 1" by code_simp
  have f: "js_index (userAnswers (handleNext all_answered_back))
     (currentQuestionIndex (handleNext all_answered_back)) = Some (Some ''def'')" by code_simp
  show ?thesis
    using finish_op_correct [OF a, of "''def''"] finish_op_correct [OF d, of "''def''"] a b c e f
    by simp
qed

section \<open>Answering\<close>

lemma fresh_quiz_reachable:
  "cells (run [Start, Settled (Inr ten_questions)] Mounted_init) = fresh_quiz"
  by code_simp

text \<open>
  C5 holds of the specification and not of the code. On the freshly started sample
  quiz the slot of the first question is \<open>null\<close>. The first call of \<open>handleAnswer\<close> with
  the right option writes the slot and raises the score to 1. A second call from the
  same render still reads the \<open>null\<close> slot of that render, passes the guard that is
  commented "Prevent changing answer", and raises the score to 2: it is not a no-op.
  Two clicks on the option before the next render do exactly this.
\<close>

theorem handleAnswer_second_call_counts_again:
  "js_index (userAnswers fresh_quiz) (currentQuestionIndex fresh_quiz) = Some None \<and>
   handleAnswer fresh_quiz ''class'' fresh_quiz =
     Inr (fresh_quiz\<lparr>userAnswers := (userAnswers fresh_quiz)[0 := Some ''class''], score := 1\<rparr>) \<and>
   handleAnswer fresh_quiz ''class''
     (fresh_quiz\<lparr>userAnswers := (userAnswers fresh_quiz)[0 := Some ''class''], score := 1\<rparr>) =
     Inr (fresh_quiz\<lparr>userAnswers := (userAnswers fresh_quiz)[0 := Some ''class''], score := 2\<rparr>) \<and>
   answer_clicks [''class'', ''class''] fresh_quiz =
     fresh_quiz\<lparr>userAnswers := (userAnswers fresh_quiz)[0 := Some ''class''], score := 2\<rparr>"
  by code_simp

section \<open>Starting and restarting\<close>

lemma start_settle:
  "quizStatus s = NOT_STARTED \<Longrightarrow> settle r (start_request s) = fetchQuestions r s"
  by (simp add: settle_def start_request_def fetchQuestions_def fetchQuestions_request_def
      renderContent_def)

lemma restart_settle:
  "quizStatus s = FINISHED \<Longrightarrow> settle r (restart_request s) = fetchQuestions r s"
  by (simp add: settle_def restart_request_def fetchQuestions_def fetchQuestions_request_def
      renderContent_def)

text \<open>
  C7. When the topic is not blank (so that the generation call is made) and the call
  returns at least ten questions, \<open>fetchQuestions\<close> ends with status IN_PROGRESS, the
  returned questions, one \<open>null\<close> slot per question, index, score and time 0 and no
  error; only the topic is kept. Start from NOT_STARTED and Restart from FINISHED,
  followed by the settling of the call, are this \<open>fetchQuestions\<close>.
\<close>

theorem fetchQuestions_success:
  assumes "trim (topic s) \<noteq> []" and "10 \<le> length qs"
  shows "fetchQuestions (Inr qs) s =
           s\<lparr>quizStatus := IN_PROGRESS, error := None, questions := qs,
             userAnswers := replicate (length qs) None,
             currentQuestionIndex := 0, score := 0, time := 0\<rparr> \<and>
         (quizStatus s = NOT_STARTED \<longrightarrow> settle (Inr qs) (start_request s) = fetchQuestions (Inr qs) s) \<and>
         (quizStatus s = FINISHED \<longrightarrow> settle (Inr qs) (restart_request s) = fetchQuestions (Inr qs) s)"
  using assms start_settle [of s] restart_settle [of s]
  by (simp add: fetchQuestions_def fetchQuestions_request_def fetchQuestions_resume_def
      fetchQuestions_try_def)

theorem fetchQuestions_success_witness:
  "trim (topic finished_quiz) \<noteq> [] \<and> 10 \<le> length ten_questions \<and>
   quizStatus finished_quiz = FINISHED \<and>
   settle (Inr ten_questions) (restart_request finished_quiz) =
     finished_quiz\<lparr>quizStatus := IN_PROGRESS, error := None, questions := ten_questions,
       userAnswers := replicate (length ten_questions) None,
       currentQuestionIndex := 0, score := 0, time := 0\<rparr>"
proof -
  have a: "trim (topic finished_quiz) \<noteq> []" by code_simp
  have b: "10 \<le> length ten_questions" by code_simp
  have c: "quizStatus finished_quiz = FINISHED" by code_simp
  show ?thesis
    using fetchQuestions_success [OF a b] a b c by simp
qed

text \<open>
  C3, as stated, fails. The \<open>catch\<close> clause sets the error and the status and nothing
  else. When a restart from the finished sample quiz fails, the application is back in
  NOT_STARTED with the error set, and the questions, answers, index, score and time of
  the finished session are all still there.
\<close>

theorem fetchQuestions_failure_counterexample:
  "quizStatus finished_quiz = FINISHED \<and>
   quizStatus (settle (Inl (JsError ''Could not generate the quiz.'')) (restart_request finished_quiz)) =
     NOT_STARTED \<and>
   questions (settle (Inl (JsError ''Could not generate the quiz.'')) (restart_request finished_quiz)) =
     ten_questions \<and>
   ten_questions \<noteq> [] \<and>
   userAnswers (settle (Inl (JsError ''Could not generate the quiz.'')) (restart_request finished_quiz)) =
     userAnswers finished_quiz \<and>
   userAnswers finished_quiz \<noteq> [] \<and>
   currentQuestionIndex (settle (Inl (JsError ''Could not generate the quiz.'')) (restart_request finished_quiz)) = 9 \<and>
   score (settle (Inl (JsError ''Could not generate the quiz.'')) (restart_request finished_quiz)) = 7 \<and>
   time (settle (Inl (JsError ''Could not generate the quiz.'')) (restart_request finished_quiz)) = 3"
  by code_simp

text \<open>
  C3, amended. When the topic is not blank and the generation call fails or returns
  fewer than ten questions, \<open>fetchQuestions\<close> ends with status NOT_STARTED and the error
  set to the message of the thrown \<open>Error\<close>, to "An unknown error occurred" for any
  other thrown value, or to the fixed text about fewer than ten questions; nothing of
  the failed attempt is stored, and questions, answers, index, score and time are what
  they were before the attempt. Start from NOT_STARTED and Restart from FINISHED,
  followed by the settling of the call, are this \<open>fetchQuestions\<close>.
\<close>

theorem fetchQuestions_failure:
  assumes "trim (topic s) \<noteq> []"
  shows "fetchQuestions (Inl (JsError m)) s = s\<lparr>error := Some m, quizStatus := NOT_STARTED\<rparr> \<and>
         fetchQuestions (Inl NonError) s =
           s\<lparr>error := Some ''An unknown error occurred'', quizStatus := NOT_STARTED\<rparr> \<and>
         (length qs < 10 \<longrightarrow>
            fetchQuestions (Inr qs) s =
              s\<lparr>error := Some ''The AI generated fewer than 10 questions. Please try again with a clearer topic.'',
                quizStatus := NOT_STARTED\<rparr>) \<and>
         (quizStatus s = NOT_STARTED \<longrightarrow> settle r (start_request s) = fetchQuestions r s) \<and>
         (quizStatus s = FINISHED \<longrightarrow> settle r (restart_request s) = fetchQuestions r s)"
  using assms start_settle [of s] restart_settle [of s]
  by (simp add: fetchQuestions_def fetchQuestions_request_def fetchQuestions_resume_def
      fetchQuestions_try_def fetchQuestions_catch_def)

theorem fetchQuestions_failure_witness:
  "trim (topic App_init) \<noteq> [] \<and> length (replicate 7 sample_question) < 10 \<and>
   quizStatus App_init = NOT_STARTED \<and>
   settle (Inr (replicate 7 sample_question)) (start_request App_init) =
     App_init\<lparr>error := Some ''The AI generated fewer than 10 questions. Please try again with a clearer topic.'',
       quizStatus := NOT_STARTED\<rparr> \<and>
   fetchQuestions (Inl (JsError ''API_KEY environment variable not set'')) App_init =
     App_init\<lparr>error := Some ''API_KEY environment variable not set'', quizStatus := NOT_STARTED\<rparr>"
proof -
  have a: "trim (topic App_init) \<noteq> []" by code_simp
  have b: "length (replicate 7 sample_question) < 10" by simp
  have c: "quizStatus App_init = NOT_STARTED" by code_simp
  show ?thesis
    using fetchQuestions_failure [OF a, of "''API_KEY environment variable not set''"
        "replicate 7 sample_question" "Inr (replicate 7 sample_question)"] a b c
    by simp
qed

section \<open>The score\<close>





text \<open>
  C6 holds of the specification and not of the code. In the run in which the right
  option of each of the ten questions is clicked twice before the next render, every
  second click counts again (the same slip as under C5), and the application reaches a
  state with ten questions and score 20.
\<close>

theorem score_exceeds_questions:
  "quizStatus (cells (run double_click_events Mounted_init)) = IN_PROGRESS \<and>
   length (questions (cells (run double_click_events Mounted_init))) = 10 \<and>
   score (cells (run double_click_events Mounted_init)) = 20 \<and>
   \<not> score (cells (run double_click_events Mounted_init)) \<le>
       int (length (questions (cells (run double_click_events Mounted_init))))"
  by code_simp

section \<open>The timer\<close>












section \<open>The elapsed-time display\<close>

lemma of_char_digit_char: "d < 10 \<Longrightarrow> (of_char (digit_char d) :: nat) = 48 + d"
  by (simp add: digit_char_def)

lemma is_digit_digit_char: "d < 10 \<Longrightarrow> is_digit (digit_char d)"
  by (simp add: is_digit_def of_char_digit_char)

lemma dec_value_snoc: "dec_value (ds @ [c]) = 10 * dec_value ds + (of_char c - 48)"
  by (simp add: dec_value_def)

lemma decimal_nonempty: "decimal n \<noteq> []"
  by (subst decimal.simps) simp

lemma decimal_digits: "list_all is_digit (decimal n)"
proof (induction n rule: decimal.induct)
  case (1 n)
  show ?case
  proof (cases "n < 10")
    case True
    then show ?thesis by (subst decimal.simps) (simp add: is_digit_digit_char)
  next
    case False
    then show ?thesis using "1" by (subst decimal.simps) (simp add: is_digit_digit_char)
  qed
qed

lemma decimal_value: "dec_value (decimal n) = n"
proof (induction n rule: decimal.induct)
  case (1 n)
  show ?case
  proof (cases "n < 10")
    case True
    then show ?thesis
      by (subst decimal.simps) (simp add: dec_value_def of_char_digit_char)
  next
    case False
    then show ?thesis
      using "1" by (subst decimal.simps) (simp add: dec_value_snoc of_char_digit_char)
  qed
qed

lemma decimal_length_one: "(length (decimal n) = 1) = (n < 10)"
proof (cases "n < 10")
  case True
  then show ?thesis by (subst decimal.simps) simp
next
  case False
  then show ?thesis using decimal_nonempty [of "n div 10"] by (subst decimal.simps) simp
qed

lemma decimal_hd: "0 < n \<Longrightarrow> hd (decimal n) \<noteq> CHR ''0''"
proof (induction n rule: decimal.induct)
  case (1 n)
  show ?case
  proof (cases "n < 10")
    case True
    have "(of_char (digit_char n) :: nat) \<noteq> of_char (CHR ''0'')"
      using True "1.prems" by (simp add: of_char_digit_char)
    then have "digit_char n \<noteq> CHR ''0''" by auto
    then show ?thesis using True by (subst decimal.simps) simp
  next
    case False
    then have "0 < n div 10" by simp
    then have "hd (decimal (n div 10)) \<noteq> CHR ''0''" using "1.IH" False by simp
    then show ?thesis
      using False decimal_nonempty [of "n div 10"] by (subst decimal.simps) simp
  qed
qed

lemma is_decimal_of_decimal: "is_decimal_of (decimal n) n"
proof -
  have "length (decimal n) = 1 \<or> hd (decimal n) \<noteq> CHR ''0''"
    using decimal_length_one [of n] decimal_hd [of n] by (cases "n = 0") auto
  then show ?thesis
    by (simp add: is_decimal_of_def decimal_nonempty decimal_digits decimal_value)
qed

lemma decimal_length_le_2: "n < 100 \<Longrightarrow> length (decimal n) \<le> 2"
proof -
  assume "n < 100"
  then have "n div 10 < 10" by arith
  then have "length (decimal (n div 10)) = 1" using decimal_length_one [of "n div 10"] by simp
  then show ?thesis by (subst decimal.simps) simp
qed

lemma decimal_length_gt_2: "100 \<le> n \<Longrightarrow> 2 < length (decimal n)"
proof -
  assume h: "100 \<le> n"
  then have a: "\<not> n < 10" and b: "\<not> n div 10 < 10" by simp_all
  have "length (decimal (n div 10)) \<noteq> 1" using b decimal_length_one [of "n div 10"] by simp
  moreover have "length (decimal (n div 10)) \<noteq> 0" using decimal_nonempty [of "n div 10"] by simp
  ultimately have "2 \<le> length (decimal (n div 10))" by arith
  then show ?thesis using a by (subst decimal.simps) simp
qed

lemma round_half_even_cases:
  "round_half_even a b = a div b \<or>
   (round_half_even a b = a div b + 1 \<and> b \<le> 2 * (a mod b))"
  by (auto simp: round_half_even_def Let_def)

lemma round_half_even_ge: "a div b \<le> round_half_even a b"
  using round_half_even_cases [of a b] by auto

lemma scale_down_prop:
  "0 < d \<Longrightarrow> d \<le> 2 * a \<Longrightarrow>
   e \<le> scale_down a d e \<and> d * 2 ^ (scale_down a d e - e) \<le> 2 * a"
proof (induction a d e rule: scale_down.induct)
  case (1 a d e)
  show ?case
  proof (cases "a < d")
    case True
    then show ?thesis using "1.prems" by (subst (1 2) scale_down.simps) simp
  next
    case False
    then have ih: "e + 1 \<le> scale_down a (2 * d) (e + 1) \<and>
      2 * d * 2 ^ (scale_down a (2 * d) (e + 1) - (e + 1)) \<le> 2 * a"
      using "1.IH" "1.prems" by simp
    have eq: "scale_down a d e = scale_down a (2 * d) (e + 1)"
      using False "1.prems" by (subst scale_down.simps) simp
    have "scale_down a (2 * d) (e + 1) - e = Suc (scale_down a (2 * d) (e + 1) - (e + 1))"
      using ih by arith
    then show ?thesis using ih eq by simp
  qed
qed

lemma scale_up_prop:
  "0 < x \<Longrightarrow> k \<le> scale_up x t k \<and> t \<le> x * 2 ^ (scale_up x t k - k)"
proof (induction x t k rule: scale_up.induct)
  case (1 x t k)
  show ?case
  proof (cases "t \<le> x")
    case True
    then show ?thesis by (subst (1 2) scale_up.simps) simp
  next
    case False
    then have ih: "k + 1 \<le> scale_up (2 * x) t (k + 1) \<and>
      t \<le> 2 * x * 2 ^ (scale_up (2 * x) t (k + 1) - (k + 1))"
      using "1.IH" "1.prems" by simp
    have eq: "scale_up x t k = scale_up (2 * x) t (k + 1)"
      using False "1.prems" by (subst scale_up.simps) simp
    have "scale_up (2 * x) t (k + 1) - k = Suc (scale_up (2 * x) t (k + 1) - (k + 1))"
      using ih by arith
    then show ?thesis using ih eq by simp
  qed
qed

lemma to_double_small: "c < 2 ^ 53 \<Longrightarrow> to_double c = c"
  by (simp add: to_double_def)

lemma to_double_large:
  assumes "2 ^ 53 \<le> c"
  shows "2 ^ 53 \<le> to_double c"
proof -
  define e where "e = scale_down c (2 ^ 54) 1"
  have "(2::nat) ^ 54 \<le> 2 * c" using assms by simp
  then have p: "1 \<le> e \<and> 2 ^ 54 * 2 ^ (e - 1) \<le> 2 * c"
    unfolding e_def using scale_down_prop [of "2 ^ 54" c 1] by simp
  then obtain i where i: "e = Suc i" by (cases e) auto
  have le: "(2::nat) ^ 52 * 2 ^ e \<le> c" using p i by simp
  have "(2::nat) ^ 52 \<le> c div 2 ^ e"
    using le by (simp add: less_eq_div_iff_mult_less_eq)
  then have "(2::nat) ^ 52 \<le> round_half_even c (2 ^ e)"
    using round_half_even_ge [of c "2 ^ e"] by linarith
  then have "(2::nat) ^ 52 * 2 ^ e \<le> round_half_even c (2 ^ e) * 2 ^ e"
    by (rule mult_le_mono1)
  moreover have "(2::nat) ^ 53 \<le> 2 ^ 52 * 2 ^ e" using i by simp
  ultimately have "(2::nat) ^ 53 \<le> round_half_even c (2 ^ e) * 2 ^ e" by linarith
  then show ?thesis using assms by (simp add: to_double_def e_def Let_def)
qed

lemma to_double_eq_small: "m < 2 ^ 53 \<Longrightarrow> to_double c = m \<Longrightarrow> c = m"
  using to_double_small [of c] to_double_large [of c] by (cases "c < 2 ^ 53") auto

lemma shortest_small: "m < 2 ^ 53 \<Longrightarrow> shortest m j = m"
proof (induction j)
  case 0
  then show ?case by simp
next
  case (Suc j)
  have lo: "to_double (m div 10 ^ Suc j * 10 ^ Suc j) = m \<Longrightarrow> m div 10 ^ Suc j * 10 ^ Suc j = m"
    using Suc.prems by (rule to_double_eq_small)
  have hi: "to_double (m div 10 ^ Suc j * 10 ^ Suc j + 10 ^ Suc j) \<noteq> m"
  proof
    assume "to_double (m div 10 ^ Suc j * 10 ^ Suc j + 10 ^ Suc j) = m"
    then have "m div 10 ^ Suc j * 10 ^ Suc j + 10 ^ Suc j = m"
      using to_double_eq_small [OF Suc.prems] by blast
    moreover have "m < m div 10 ^ Suc j * 10 ^ Suc j + 10 ^ Suc j"
    proof -
      have pos: "(0::nat) < 10 ^ Suc j" by simp
      have "m mod 10 ^ Suc j < 10 ^ Suc j" using pos by (rule mod_less_divisor)
      moreover have "m = m div 10 ^ Suc j * 10 ^ Suc j + m mod 10 ^ Suc j"
        by (rule div_mod_decomp)
      ultimately show ?thesis by linarith
    qed
    ultimately show False by simp
  qed
  show ?case
    using lo hi Suc.IH [OF Suc.prems]
    by (auto simp add: Let_def simp del: power_Suc)
qed

lemma scaled_quotient:
  assumes "30 < P"
  shows "round_half_even (a * P) 60 div P = a div 60"
proof -
  define q where "q = a div 60"
  define t where "t = a * P div 60"
  define u where "u = a * P mod 60"
  define X where "X = q * P"
  have a1: "60 * q \<le> a" and a2: "a \<le> 60 * q + 59"
    unfolding q_def by (simp_all add: algebra_simps)
  have d: "a * P = 60 * t + u" and u: "u < 60"
    unfolding t_def u_def by simp_all
  have "60 * q * P \<le> a * P" using a1 by (rule mult_le_mono1)
  then have lo: "60 * X \<le> a * P" by (simp add: X_def mult.assoc)
  have "a * P \<le> (60 * q + 59) * P" using a2 by (rule mult_le_mono1)
  then have hi: "a * P \<le> 60 * X + 59 * P" by (simp add: X_def algebra_simps)
  have M: "round_half_even (a * P) 60 = t \<or>
           (round_half_even (a * P) 60 = t + 1 \<and> 60 \<le> 2 * u)"
    using round_half_even_cases [of "a * P" 60] by (simp add: t_def u_def)
  have b1: "X \<le> round_half_even (a * P) 60" using M lo d u by arith
  have b2: "round_half_even (a * P) 60 < X + P" using M hi d u assms by arith
  have "round_half_even (a * P) 60 div P = q"
    using b1 b2 assms by (intro div_nat_eqI) (simp_all add: X_def algebra_simps)
  then show ?thesis by (simp add: q_def)
qed

lemma floor_of_quotient_exact:
  assumes "a < 2 ^ 53"
  shows "floor_of_quotient a 60 = a div 60"
proof (cases "a = 0")
  case True
  then show ?thesis
    by (simp add: floor_of_quotient_def scale_up.simps round_half_even_def)
next
  case False
  define k where "k = scale_up a (60 * 2 ^ 52) 0"
  have "60 * 2 ^ 52 \<le> a * 2 ^ k"
    unfolding k_def using scale_up_prop [of a 0 "60 * 2 ^ 52"] False by simp
  moreover have "a * 2 ^ k < 2 ^ 53 * 2 ^ k" using assms by simp
  ultimately have "(60::nat) * 2 ^ 52 < 2 ^ 53 * 2 ^ k" by linarith
  then have "(30::nat) < 2 ^ k" by simp
  then have "round_half_even (a * 2 ^ k) 60 div 2 ^ k = a div 60" by (rule scaled_quotient)
  then show ?thesis using assms by (simp add: floor_of_quotient_def k_def Let_def)
qed

lemma decimal_length_le: "m < 10 ^ Suc n \<Longrightarrow> length (decimal m) \<le> Suc n"
proof (induction n arbitrary: m)
  case 0
  then show ?case by (subst decimal.simps) simp
next
  case (Suc n)
  have "m div 10 < 10 ^ Suc n" using Suc.prems by (simp add: less_mult_imp_div_less)
  then have "length (decimal (m div 10)) \<le> Suc n" by (rule Suc.IH)
  then show ?case by (subst decimal.simps) simp
qed

lemma toString_nat_small:
  assumes "m < 2 ^ 53"
  shows "toString_nat m = decimal m"
proof -
  have "m < 10 ^ Suc 20" using assms by simp
  then have "length (decimal m) \<le> Suc 20" by (rule decimal_length_le)
  then show ?thesis using assms by (simp add: toString_nat_def shortest_small)
qed

lemma formatTime_exact:
  assumes "0 \<le> s" and "s < 2 ^ 53"
  shows "formatTime s =
    zero_padded 2 (decimal (nat (s div 60))) @ '':'' @ zero_padded 2 (decimal (nat (s mod 60)))"
proof -
  have a: "nat s < 2 ^ 53" using assms by simp
  have q: "floor_of_quotient (nat s) 60 = nat s div 60" using a by (rule floor_of_quotient_exact)
  have q': "nat s div 60 = nat (s div 60)" using assms by (simp add: nat_div_distrib)
  have "nat (s div 60) < 2 ^ 53" using assms by simp
  then have m: "toString_nat (nat (s div 60)) = decimal (nat (s div 60))"
    by (rule toString_nat_small)
  have "nat (s mod 60) < 2 ^ 53" using assms by simp
  then have r: "toString_nat (nat (s mod 60)) = decimal (nat (s mod 60))"
    by (rule toString_nat_small)
  have nn: "0 \<le> s div 60" and nr: "\<not> s mod 60 < 0"
    using assms by (simp_all add: pos_imp_zdiv_nonneg_iff)
  show ?thesis
    using assms q q' m r nn nr
    by (simp add: formatTime_def Let_def Number_toString_def Math_floor_quotient_def js_rem_def
        padStart_def zero_padded_def)
qed

lemma shortest_numeral:
  "shortest m (numeral k) =
     (let p = 10 ^ numeral k; lo = (m div p) * p; hi = lo + p;
          vlo = (0 < lo \<and> to_double lo = m); vhi = (to_double hi = m)
      in if vlo \<and> vhi
         then (if m - lo < hi - m then lo
               else if hi - m < m - lo then hi
               else if even (lo div p) then lo else hi)
         else if vlo then lo
         else if vhi then hi
         else shortest m (pred_numeral k))"
  by (simp add: numeral_eq_Suc)

lemma digit_char_numeral:
  "digit_char 0 = CHR ''0''" "digit_char 1 = CHR ''1''" "digit_char 2 = CHR ''2''"
  "digit_char 3 = CHR ''3''" "digit_char 4 = CHR ''4''" "digit_char 5 = CHR ''5''"
  "digit_char 6 = CHR ''6''" "digit_char 7 = CHR ''7''" "digit_char 8 = CHR ''8''"
  "digit_char 9 = CHR ''9''" "digit_char (Suc 0) = CHR ''1''"
  by code_simp+

lemma floor_of_quotient_1e21:
  "floor_of_quotient 1000000000000000000000 60 = 16666666666666665984"
  by (simp add: floor_of_quotient_def scale_down.simps round_half_even_def Let_def)

lemma shortest_1e21: "shortest 16666666666666665984 20 = 16666666666666666000"
  by (simp add: shortest_numeral to_double_def scale_down.simps round_half_even_def Let_def)

lemma decimal_minutes_1e21:
  "length (decimal 16666666666666665984) = 20"
  "decimal 16666666666666666000 = ''16666666666666666000''"
  "decimal 16666666666666666666 = ''16666666666666666666''"
  by (simp_all add: decimal.simps digit_char_numeral)

lemma toString_nat_1e21: "toString_nat 16666666666666665984 = ''16666666666666666000''"
  by (simp add: toString_nat_def decimal_minutes_1e21 shortest_1e21)

lemma toString_nat_40: "toString_nat 40 = ''40''"
  by (simp add: toString_nat_small decimal.simps digit_char_numeral)

text \<open>
  C10, as stated, fails. \<open>10^21\<close> is a double. The quotient by 60 is rounded to the
  double 16666666666666665984, which prints as 16666666666666666000, so the minutes
  shown are not the decimal notation of \<open>10^21 div 60 = 16666666666666666666\<close>.
\<close>

theorem formatTime_1e21_counterexample:
  "to_double 1000000000000000000000 = 1000000000000000000000 \<and>
   formatTime 1000000000000000000000 = ''16666666666666666000:40'' \<and>
   zero_padded 2 (decimal (nat (1000000000000000000000 div 60))) @ '':'' @
     zero_padded 2 (decimal (nat (1000000000000000000000 mod 60))) = ''16666666666666666666:40''"
proof (intro conjI)
  show "to_double 1000000000000000000000 = 1000000000000000000000"
    by (simp add: to_double_def scale_down.simps round_half_even_def Let_def)
  show "formatTime 1000000000000000000000 = ''16666666666666666000:40''"
    by (simp add: formatTime_def Let_def Number_toString_def Math_floor_quotient_def js_rem_def
        padStart_def floor_of_quotient_1e21 toString_nat_1e21 toString_nat_40)
  show "zero_padded 2 (decimal (nat (1000000000000000000000 div 60))) @ '':'' @
     zero_padded 2 (decimal (nat (1000000000000000000000 mod 60))) = ''16666666666666666666:40''"
    by (simp add: zero_padded_def decimal_minutes_1e21 decimal.simps digit_char_numeral)
qed

text \<open>
  C10, amended. For every non-negative integer \<open>s\<close> below \<open>2^53\<close>, \<open>formatTime s\<close> is the
  decimal notation of \<open>s div 60\<close> padded with zeros on the left to at least two
  characters, a colon, and the decimal notation of \<open>s mod 60\<close> padded to two characters.
  The minutes are the whole quotient, neither wrapped nor capped, so from 6000 seconds
  on the minutes field has more than two characters.
\<close>

theorem formatTime_correct:
  assumes "0 \<le> s" and "s < 2 ^ 53"
  shows "\<exists>m r. is_decimal_of m (nat (s div 60)) \<and> is_decimal_of r (nat (s mod 60)) \<and>
           formatTime s = zero_padded 2 m @ '':'' @ zero_padded 2 r \<and>
           length (zero_padded 2 r) = 2 \<and>
           2 \<le> length (zero_padded 2 m) \<and>
           (6000 \<le> s \<longrightarrow> 2 < length (zero_padded 2 m))"
proof (intro exI conjI impI)
  show "is_decimal_of (decimal (nat (s div 60))) (nat (s div 60))"
    and "is_decimal_of (decimal (nat (s mod 60))) (nat (s mod 60))"
    by (rule is_decimal_of_decimal)+
  show "formatTime s =
    zero_padded 2 (decimal (nat (s div 60))) @ '':'' @ zero_padded 2 (decimal (nat (s mod 60)))"
    using assms by (rule formatTime_exact)
  have "nat (s mod 60) < 100" using assms by simp
  then have "length (decimal (nat (s mod 60))) \<le> 2" by (rule decimal_length_le_2)
  then show "length (zero_padded 2 (decimal (nat (s mod 60)))) = 2"
    by (simp add: zero_padded_def)
  show "2 \<le> length (zero_padded 2 (decimal (nat (s div 60))))"
    by (simp add: zero_padded_def)
  {
    assume "6000 \<le> s"
    then have "100 \<le> nat (s div 60)" by simp
    then have "2 < length (decimal (nat (s div 60)))" by (rule decimal_length_gt_2)
    then show "2 < length (zero_padded 2 (decimal (nat (s div 60))))"
      by (simp add: zero_padded_def)
  }
qed

theorem formatTime_correct_witness:
  "(0::int) \<le> 6125 \<and> (6125::int) < 2 ^ 53 \<and> (6000::int) \<le> 6125 \<and>
   formatTime 6125 = ''102:05'' \<and> formatTime 59 = ''00:59''"
proof -
  have a: "(0::int) \<le> 6125" and b: "(6125::int) < 2 ^ 53" by simp_all
  have c: "formatTime 6125 = ''102:05''"
    by (simp add: formatTime_exact zero_padded_def decimal.simps digit_char_numeral)
  have d: "formatTime 59 = ''00:59''"
    by (simp add: formatTime_exact zero_padded_def decimal.simps digit_char_numeral)
  from formatTime_correct [OF a b] c d show ?thesis by simp
qed

section \<open>What the question source returns\<close>

lemma generate_catch_cases:
  "generate_catch err = JsError ''There was an issue with the AI's response format. Please try again.'' \<or>
   generate_catch err = JsError ''Could not generate the quiz. Please check the topic or try again later.''"
  by (simp add: generate_catch_def)

lemma generate_try_Inr:
  "generate_try g P t = Inr qs \<Longrightarrow>
   qs \<noteq> [] \<and> (\<exists>body quizData. g t = Inr (Some body) \<and> P (trim body) = Inr quizData \<and>
      questions_property quizData = Inr (Some (JArray qs)))"
  by (auto simp: generate_try_def split: sum.splits option.splits if_splits
      elim!: Array_isArray.elims)

lemma generate_try_array:
  "g t = Inr (Some body) \<Longrightarrow> P (trim body) = Inr (JObject members) \<Longrightarrow>
   map_of members ''questions'' = Some (JArray qs) \<Longrightarrow> qs \<noteq> [] \<Longrightarrow>
   generate_try g P t = Inr qs"
  by (simp add: generate_try_def questions_property_def)

text \<open>
  C4, as stated, fails. When the response holds a single record with two options, a
  correct answer that is none of them and no explanation, \<open>generateQuizQuestions\<close> returns
  that one record: fewer than ten questions, and not of the shape asked for.
\<close>

theorem generateQuizQuestions_unvalidated_counterexample:
  "generateQuizQuestions (Some ''key'') sample_generateContent sample_JSON_parse ''Pointers'' =
     Inr [one_question] \<and>
   length [one_question] < 10 \<and>
   \<not> spec_QuizQuestion one_question \<and>
   \<not> spec_valid_questions [one_question]"
  by code_simp

text \<open>
  C4, amended. \<open>generateQuizQuestions\<close> either returns a non-empty sequence, which is the
  array under \<open>questions\<close> of the parsed response as it was received, or fails with one of
  three fixed messages. Whenever the key is set and the parsed response is an object
  whose \<open>questions\<close> is a non-empty array, that array is returned as it is: its length
  beyond being non-empty, the fields of its records, the number of options and the
  correct answer are not examined.
\<close>

theorem generateQuizQuestions_result:
  "(case generateQuizQuestions k g P t of
      Inr qs \<Rightarrow>
        qs \<noteq> [] \<and>
        (\<exists>body quizData. g t = Inr (Some body) \<and> P (trim body) = Inr quizData \<and>
           questions_property quizData = Inr (Some (JArray qs)))
    | Inl e \<Rightarrow>
        e = JsError ''API_KEY environment variable not set'' \<or>
        e = JsError ''There was an issue with the AI's response format. Please try again.'' \<or>
        e = JsError ''Could not generate the quiz. Please check the topic or try again later.'') \<and>
   (k \<noteq> None \<and> k \<noteq> Some [] \<and> g t = Inr (Some body) \<and> P (trim body) = Inr (JObject members) \<and>
    map_of members ''questions'' = Some (JArray qs) \<and> qs \<noteq> [] \<longrightarrow>
      generateQuizQuestions k g P t = Inr qs)"
proof (intro conjI impI)
  show "case generateQuizQuestions k g P t of
      Inr qs \<Rightarrow>
        qs \<noteq> [] \<and>
        (\<exists>body quizData. g t = Inr (Some body) \<and> P (trim body) = Inr quizData \<and>
           questions_property quizData = Inr (Some (JArray qs)))
    | Inl e \<Rightarrow>
        e = JsError ''API_KEY environment variable not set'' \<or>
        e = JsError ''There was an issue with the AI's response format. Please try again.'' \<or>
        e = JsError ''Could not generate the quiz. Please check the topic or try again later.''"
  proof (cases "generateQuizQuestions k g P t")
    case (Inl e)
    then show ?thesis
      using generate_catch_cases
      by (auto simp: generateQuizQuestions_def split: if_splits sum.splits)
  next
    case (Inr qs)
    then have "generate_try g P t = Inr qs"
      by (auto simp: generateQuizQuestions_def split: if_splits sum.splits)
    then show ?thesis using Inr generate_try_Inr [of g P t qs] by simp
  qed
next
  assume "k \<noteq> None \<and> k \<noteq> Some [] \<and> g t = Inr (Some body) \<and> P (trim body) = Inr (JObject members) \<and>
    map_of members ''questions'' = Some (JArray qs) \<and> qs \<noteq> []"
  then show "generateQuizQuestions k g P t = Inr qs"
    by (simp add: generateQuizQuestions_def generate_try_array)
qed

theorem generateQuizQuestions_result_witness:
  "Some ''key'' \<noteq> None \<and> Some ''key'' \<noteq> Some [] \<and>
   sample_generateContent ''Pointers'' = Inr (Some one_question_text) \<and>
   sample_JSON_parse (trim one_question_text) = Inr (JObject [(''questions'', JArray [one_question])]) \<and>
   map_of [(''questions'', JArray [one_question])] ''questions'' = Some (JArray [one_question]) \<and>
   [one_question] \<noteq> [] \<and>
   generateQuizQuestions (Some ''key'') sample_generateContent sample_JSON_parse ''Pointers'' =
     Inr [one_question]"
proof -
  have a: "sample_generateContent ''Pointers'' = Inr (Some one_question_text)"
    by (simp add: sample_generateContent_def)
  have b: "sample_JSON_parse (trim one_question_text) =
    Inr (JObject [(''questions'', JArray [one_question])])"
    by code_simp
  have c: "map_of [(''questions'', JArray [one_question])] ''questions'' = Some (JArray [one_question])"
    by simp
  show ?thesis
    using generateQuizQuestions_result [where k = "Some ''key''" and g = sample_generateContent
        and P = sample_JSON_parse and t = "''Pointers''" and body = one_question_text
        and members = "[(''questions'', JArray [one_question])]" and qs = "[one_question]"]
      a b c
    by simp
qed

end
